theory Spec2Isabelle
  imports Complex_Main
begin

section \<open>HexMem spaced-repetition review (review.py)\<close>

text \<open>
  Python floats are read as real numbers, with the two ends of the exponential on
  doubles (underflow to 0.0, overflow) written out; rounding of IEEE doubles is not part
  of this development. Every exception the source can raise on well-typed values is a
  value of \<open>py_error\<close>.
\<close>

datatype py_error = ZeroDivisionError | OverflowError | IndexError | ValueError

subsection \<open>Python list indexing\<close>

text \<open>\<open>xs[i]\<close>: a negative index counts from the end, an index out of range raises.\<close>

definition py_index :: "'a list \<Rightarrow> int \<Rightarrow> py_error + 'a" where
  "py_index xs i =
     (if 0 \<le> i \<and> i < int (length xs) then Inr (xs ! nat i)
      else if i < 0 \<and> - int (length xs) \<le> i then Inr (xs ! nat (int (length xs) + i))
      else Inl IndexError)"

subsection \<open>The interval ladder and \<open>get_next_interval\<close>\<close>

definition INTERVALS :: "real list" where
  "INTERVALS = [0.33, 1, 24, 72, 168, 336, 720, 2160, 4320, 8760]"

definition get_next_interval :: "int \<Rightarrow> int \<Rightarrow> py_error + real" where
  "get_next_interval repetition_count quality =
     (if quality < 3 then py_index INTERVALS 0
      else
        let next_rep = min (repetition_count + 1) (int (length INTERVALS) - 1)
        in case py_index INTERVALS next_rep of
             Inl e \<Rightarrow> Inl e
           | Inr base_interval \<Rightarrow>
               if quality = 5 then Inr (base_interval * 1.3)
               else if quality = 3 then Inr (base_interval * 0.8)
               else Inr base_interval)"

subsection \<open>The forgetting curve\<close>

text \<open>
  The exponential on doubles has two ends. Below the logarithm of half the least
  positive double (1075 times the logarithm of 2) the result underflows to exactly 0.0.
  Above the logarithm of the largest double \<open>math.exp\<close> raises OverflowError.
\<close>

definition exp_underflow_bound :: real where
  "exp_underflow_bound = - 745.133219101941"

definition exp_overflow_bound :: real where
  "exp_overflow_bound = 709.782712893384"

definition float_exp :: "real \<Rightarrow> real" where
  "float_exp x = (if x < exp_underflow_bound then 0 else exp x)"

definition math_exp :: "real \<Rightarrow> py_error + real" where
  "math_exp x = (if exp_overflow_bound < x then Inl OverflowError else Inr (float_exp x))"

definition calculate_retention :: "real \<Rightarrow> real \<Rightarrow> py_error + real" where
  "calculate_retention hours_since_review memory_strength =
     (let s = memory_strength * 24
      in if s = 0 then Inl ZeroDivisionError else math_exp (- hours_since_review / s))"

subsection \<open>The strength update of a review (review.py, lines 148 to 158)\<close>

definition review_update :: "real \<Rightarrow> int \<Rightarrow> real \<Rightarrow> int \<Rightarrow> real \<times> int" where
  "review_update strength rep_count current_retention quality =
     (if 3 \<le> quality then
        let retention_bonus = 1.0 + (1.0 - current_retention) * 0.5;
            strength_multiplier = 1.1 + real_of_int (quality - 3) * 0.1
        in (min 10.0 (strength * strength_multiplier * retention_bonus), rep_count + 1)
      else (max 0.5 (strength * 0.7), 0))"

subsection \<open>The store\<close>

text \<open>
  A table is the list of its rows. Timestamps are seconds on the UTC time line (the
  source parses the stored ISO text into a naive UTC datetime); \<open>created_at\<close> is the
  column \<open>occurred_at\<close> of an event and \<open>learned_at\<close> of a lesson. The columns read
  here are taken to be NOT NULL, except \<open>last_reviewed_at\<close> and \<open>next_review_at\<close>.
  The source reads and writes \<open>summary\<close>, \<open>importance\<close> and \<open>consolidation_state\<close> on
  events only; a lesson carries them as every item of the data model does.
\<close>

record item =
  item_id :: int
  summary :: string
  importance :: real
  memory_strength :: real
  repetition_count :: int
  last_reviewed_at :: "real option"
  created_at :: real
  next_review_at :: "real option"
  retention_estimate :: real
  consolidation_state :: string

record review_log_row =
  log_source_table :: string
  log_source_id :: int
  retention_before :: real
  log_quality :: int
  time_since_last_review_hours :: real

record database =
  events :: "item list"
  lessons :: "item list"
  review_log :: "review_log_row list"

text \<open>The \<open>k\<close>-th reading of the clock made by one call (\<open>utcnow()\<close>, SQL \<open>'now'\<close>).\<close>

type_synonym clock = "nat \<Rightarrow> real"

datatype outcome = Recorded | NotFound | Shown | BadFormat | UsageError | Raised py_error

text \<open>\<open>SELECT ... WHERE id = ?\<close> with \<open>fetchone\<close>, on the table the source picks.\<close>

definition fetch_item :: "database \<Rightarrow> string \<Rightarrow> int \<Rightarrow> item option" where
  "fetch_item conn source_table source_id =
     (if source_table = ''events''
      then find (\<lambda>r. item_id r = source_id) (events conn)
      else find (\<lambda>r. item_id r = source_id) (lessons conn))"

text \<open>\<open>UPDATE ... SET ... WHERE id = ?\<close>.\<close>

definition update_where_id :: "int \<Rightarrow> (item \<Rightarrow> item) \<Rightarrow> item list \<Rightarrow> item list" where
  "update_where_id source_id f rows = map (\<lambda>r. if item_id r = source_id then f r else r) rows"

definition last_or_created :: "item \<Rightarrow> real" where
  "last_or_created r = (case last_reviewed_at r of Some t \<Rightarrow> t | None \<Rightarrow> created_at r)"

definition quality_labels :: "string list" where
  "quality_labels = [''Blackout'', ''Barely'', ''Struggled'', ''Hard'', ''Good'', ''Easy'']"

subsection \<open>\<open>review_item\<close>\<close>

text \<open>The SET clause of the UPDATE (lines 167 to 172).\<close>

definition set_review :: "real \<Rightarrow> int \<Rightarrow> real \<Rightarrow> real \<Rightarrow> item \<Rightarrow> item" where
  "set_review new_strength new_rep_count now next_review r =
     r\<lparr>memory_strength := new_strength,
       repetition_count := new_rep_count,
       last_reviewed_at := Some now,
       next_review_at := Some next_review,
       retention_estimate := 1.0\<rparr>"

text \<open>The two writes of a review (lines 164 to 190): the UPDATE and the INSERT into the log.\<close>

definition write_review ::
  "database \<Rightarrow> string \<Rightarrow> int \<Rightarrow> real \<Rightarrow> int \<Rightarrow> real \<Rightarrow> real \<Rightarrow> real \<Rightarrow> int \<Rightarrow> real \<Rightarrow> database" where
  "write_review conn source_table source_id new_strength new_rep_count now next_review
       current_retention quality hours_since =
     (let upd = set_review new_strength new_rep_count now next_review;
          conn1 = (if source_table = ''events''
                   then conn\<lparr>events := update_where_id source_id upd (events conn)\<rparr>
                   else conn\<lparr>lessons := update_where_id source_id upd (lessons conn)\<rparr>)
      in conn1\<lparr>review_log := review_log conn1 @
                 [\<lparr>log_source_table = source_table,
                   log_source_id = source_id,
                   retention_before = current_retention,
                   log_quality = quality,
                   time_since_last_review_hours = hours_since\<rparr>]\<rparr>)"

text \<open>
  The three clock readings are \<open>now\<close> (line 116), the one of \<open>hours_since\<close> (line 142) and
  the one of \<open>next_review\<close> (line 162). An exception raised before the first write leaves
  the store as it was; the label lookup of the final report comes after the commit.
\<close>

definition review_item :: "clock \<Rightarrow> database \<Rightarrow> string \<Rightarrow> int \<Rightarrow> int \<Rightarrow> database \<times> outcome" where
  "review_item clk conn source_table source_id quality =
     (case fetch_item conn source_table source_id of
        None \<Rightarrow> (conn, NotFound)
      | Some row \<Rightarrow>
          let strength = memory_strength row;
              rep_count = repetition_count row;
              last_reviewed = last_or_created row;
              hours_since = (clk 1 - last_reviewed) / 3600
          in case calculate_retention hours_since strength of
               Inl e \<Rightarrow> (conn, Raised e)
             | Inr current_retention \<Rightarrow>
                 let new_strength = fst (review_update strength rep_count current_retention quality);
                     new_rep_count = snd (review_update strength rep_count current_retention quality)
                 in case get_next_interval new_rep_count quality of
                      Inl e \<Rightarrow> (conn, Raised e)
                    | Inr next_interval_hours \<Rightarrow>
                        let next_review = clk 2 + next_interval_hours * 3600
                        in (write_review conn source_table source_id new_strength new_rep_count
                              (clk 0) next_review current_retention quality hours_since,
                            case py_index quality_labels quality of
                              Inl e \<Rightarrow> Raised e
                            | Inr label \<Rightarrow> Recorded))"

subsection \<open>\<open>process_decay\<close>\<close>

text \<open>
  SQLite's \<open>JULIANDAY\<close> of a timestamp, in days; a division by zero is NULL in SQL (here
  \<open>None\<close>), and a NULL comparison selects no row. SQLite's \<open>EXP\<close> is the same exponential
  on doubles; it raises nothing.
\<close>

definition julianday :: "real \<Rightarrow> real" where
  "julianday t = t / 86400 + 2440587.5"

definition sql_retention :: "real \<Rightarrow> real \<Rightarrow> real option" where
  "sql_retention days strength =
     (if strength * 24 = 0 then None else Some (float_exp (- (days * 24) / (strength * 24))))"

definition decay_retention :: "real \<Rightarrow> item \<Rightarrow> real option" where
  "decay_retention now r = sql_retention (julianday now - julianday (last_or_created r)) (memory_strength r)"

definition decay_candidate :: "real \<Rightarrow> item \<Rightarrow> bool" where
  "decay_candidate now r =
     (consolidation_state r \<noteq> ''forgotten'' \<and> importance r < 0.3 \<and>
      (case decay_retention now r of None \<Rightarrow> False | Some x \<Rightarrow> x < 0.1))"

text \<open>SQLite's \<open>ROUND(x, 3)\<close>, halves away from zero.\<close>

definition round3 :: "real \<Rightarrow> real" where
  "round3 x = (if 0 \<le> x then real_of_int \<lfloor>x * 1000 + 1 / 2\<rfloor> / 1000
               else - (real_of_int \<lfloor>- x * 1000 + 1 / 2\<rfloor> / 1000))"

definition candidate_row :: "real \<Rightarrow> item \<Rightarrow> int \<times> string \<times> real \<times> real option" where
  "candidate_row now r = (item_id r, summary r, importance r, map_option round3 (decay_retention now r))"

text \<open>
  The first reading of the clock is the \<open>'now'\<close> of the SELECT, the second the one of the
  UPDATE. The result is the store and the candidates printed.
\<close>

definition process_decay ::
  "clock \<Rightarrow> database \<Rightarrow> bool \<Rightarrow> database \<times> (int \<times> string \<times> real \<times> real option) list" where
  "process_decay clk conn dry_run =
     (let candidates = map (candidate_row (clk 0)) (filter (decay_candidate (clk 0)) (events conn))
      in if candidates = [] then (conn, [])
         else if dry_run then (conn, candidates)
         else
           let ids = map item_id (filter (decay_candidate (clk 1)) (events conn))
           in (conn\<lparr>events := map (\<lambda>r. if item_id r \<in> set ids
                                          then r\<lparr>consolidation_state := ''forgotten''\<rparr> else r)
                                  (events conn)\<rparr>,
               candidates))"

subsection \<open>The command line (\<open>main\<close>)\<close>

text \<open>\<open>str.split(':')\<close>.\<close>

fun split_colon :: "string \<Rightarrow> string list" where
  "split_colon [] = [[]]"
| "split_colon (c # cs) =
     (if c = CHR '':'' then [] # split_colon cs
      else (case split_colon cs of
              [] \<Rightarrow> [[c]]
            | p # ps \<Rightarrow> (c # p) # ps))"

text \<open>
  \<open>int(text)\<close> on ASCII text: blanks around it are dropped, a sign may lead, and the
  digits may be grouped by single underscores. Anything else raises ValueError.
\<close>

definition is_space :: "char \<Rightarrow> bool" where
  "is_space c = (c \<in> set [CHR '' '', CHR 0x09, CHR 0x0A, CHR 0x0B, CHR 0x0C, CHR 0x0D])"

definition is_digit :: "char \<Rightarrow> bool" where
  "is_digit c = (c \<in> set ''0123456789'')"

definition digit_val :: "char \<Rightarrow> nat" where
  "digit_val c = of_char c - 48"

definition strip :: "string \<Rightarrow> string" where
  "strip s = rev (dropWhile is_space (rev (dropWhile is_space s)))"

fun digits_ok :: "string \<Rightarrow> bool" where
  "digits_ok [] = False"
| "digits_ok [c] = is_digit c"
| "digits_ok (c # d # cs) =
     (is_digit c \<and> (if d = CHR ''_'' then digits_ok cs else digits_ok (d # cs)))"

definition digits_value :: "string \<Rightarrow> nat" where
  "digits_value s = foldl (\<lambda>a c. 10 * a + digit_val c) 0 (filter is_digit s)"

definition py_int :: "string \<Rightarrow> py_error + int" where
  "py_int s =
     (case strip s of
        [] \<Rightarrow> Inl ValueError
      | c # cs \<Rightarrow>
          if c = CHR ''-'' then (if digits_ok cs then Inr (- int (digits_value cs)) else Inl ValueError)
          else if c = CHR ''+'' then (if digits_ok cs then Inr (int (digits_value cs)) else Inl ValueError)
          else if digits_ok (c # cs) then Inr (int (digits_value (c # cs))) else Inl ValueError)"

text \<open>
  The parsed arguments. \<open>argparse\<close> rejects a quality outside its \<open>choices\<close> before the
  store is opened; \<open>--due\<close> and \<open>--stats\<close> only read.
\<close>

record args =
  arg_due :: bool
  arg_review :: "string option"
  arg_quality :: int
  arg_stats :: bool
  arg_decay :: bool
  arg_apply :: bool

definition main :: "clock \<Rightarrow> database \<Rightarrow> args \<Rightarrow> database \<times> outcome" where
  "main clk conn a =
     (if arg_quality a \<notin> set [0, 1, 2, 3, 4, 5] then (conn, UsageError)
      else if arg_due a then (conn, Shown)
      else if arg_review a \<noteq> None \<and> arg_review a \<noteq> Some [] then
        let parts = split_colon (the (arg_review a))
        in if length parts \<noteq> 2 then (conn, BadFormat)
           else (case py_int (parts ! 1) of
                   Inl e \<Rightarrow> (conn, Raised e)
                 | Inr source_id \<Rightarrow> review_item clk conn (parts ! 0) source_id (arg_quality a))
      else if arg_stats a then (conn, Shown)
      else if arg_decay a then (fst (process_decay clk conn (\<not> arg_apply a)), Shown)
      else (conn, Shown))"

subsection \<open>Sequences of calls\<close>

text \<open>The rows a table name stands for in \<open>review_item\<close>: every name but \<open>events\<close> is \<open>lessons\<close>.\<close>

definition table_rows :: "database \<Rightarrow> string \<Rightarrow> item list" where
  "table_rows conn source_table = (if source_table = ''events'' then events conn else lessons conn)"

datatype operation = Review clock string int int | Sweep clock bool

fun run_op :: "database \<Rightarrow> operation \<Rightarrow> database" where
  "run_op conn (Review clk source_table source_id quality) =
     fst (review_item clk conn source_table source_id quality)"
| "run_op conn (Sweep clk dry_run) = fst (process_decay clk conn dry_run)"

definition run_ops :: "database \<Rightarrow> operation list \<Rightarrow> database" where
  "run_ops conn ops = foldl run_op conn ops"

text \<open>
  A clock that does not run backwards over a sequence of calls: each review reads its
  first time not before \<open>T\<close> (the latest time stored so far) and its second not before
  its first.
\<close>

fun clocks_ok :: "real \<Rightarrow> operation list \<Rightarrow> bool" where
  "clocks_ok T [] = True"
| "clocks_ok T (Review clk source_table source_id quality # ops) =
     (T \<le> clk 0 \<and> clk 0 \<le> clk 1 \<and> clocks_ok (clk 0) ops)"
| "clocks_ok T (Sweep clk dry_run # ops) = clocks_ok T ops"

text \<open>A row and its later version: once forgotten, still forgotten.\<close>

definition one_way :: "item \<Rightarrow> item \<Rightarrow> bool" where
  "one_way r r' = (consolidation_state r = ''forgotten'' \<longrightarrow> consolidation_state r' = ''forgotten'')"

text \<open>The bounds of the strength.\<close>

definition in_range :: "item \<Rightarrow> bool" where
  "in_range r = (0.5 \<le> memory_strength r \<and> memory_strength r \<le> 10.0)"

subsection \<open>Sample rows\<close>

definition sample_item :: "int \<Rightarrow> real \<Rightarrow> real \<Rightarrow> int \<Rightarrow> real \<Rightarrow> string \<Rightarrow> item" where
  "sample_item i imp strength reps created state =
     \<lparr>item_id = i, summary = ''note'', importance = imp, memory_strength = strength,
      repetition_count = reps, last_reviewed_at = None, created_at = created,
      next_review_at = None, retention_estimate = 1, consolidation_state = state\<rparr>"

definition sample_store :: "item list \<Rightarrow> item list \<Rightarrow> database" where
  "sample_store es ls = \<lparr>events = es, lessons = ls, review_log = []\<rparr>"

section \<open>Properties\<close>

subsection \<open>Interval scheduling\<close>

lemma INTERVALS_length: "length INTERVALS = 10"
  by (simp add: INTERVALS_def)

lemma py_index_in_range:
  "0 \<le> i \<Longrightarrow> i < int (length xs) \<Longrightarrow> py_index xs i = Inr (xs ! nat i)"
  by (simp add: py_index_def)

text \<open>
  C2. For a repetition count \<open>r \<ge> 0\<close> and a quality in \<open>[0,5]\<close>, \<open>get_next_interval\<close>
  returns (raising nothing) the first rung 0.33 of the ladder
  [0.33, 1, 24, 72, 168, 336, 720, 2160, 4320, 8760] when the quality is below 3,
  whatever \<open>r\<close> is; otherwise it returns the rung at index \<open>min (r + 1) 9\<close> times 1.3 for
  quality 5, times 0.8 for quality 3 and unscaled for quality 4. So
  \<open>get_next_interval 0 4 = 1\<close> and \<open>get_next_interval 5 5 = 720 * 1.3 = 936\<close>.
\<close>

theorem get_next_interval_ladder:
  "(\<forall>r q. 0 \<le> r \<and> 0 \<le> q \<and> q \<le> 5 \<longrightarrow>
      get_next_interval r q =
        Inr (if q < 3 then 0.33
             else [0.33, 1, 24, 72, 168, 336, 720, 2160, 4320, 8760] ! nat (min (r + 1) 9)
                  * (if q = 5 then 1.3 else if q = 3 then 0.8 else 1)))
   \<and> get_next_interval 0 4 = Inr 1
   \<and> get_next_interval 5 5 = Inr (720 * 1.3)
   \<and> get_next_interval 5 5 = Inr 936"
proof (intro conjI allI impI)
  fix r q :: int
  assume h: "0 \<le> r \<and> 0 \<le> q \<and> q \<le> 5"
  let ?k = "min (r + 1) 9"
  have k: "0 \<le> ?k" "?k < int (length INTERVALS)"
    using h by (simp_all add: INTERVALS_length)
  have idx: "py_index INTERVALS ?k = Inr (INTERVALS ! nat ?k)"
    by (rule py_index_in_range [OF k])
  have zero: "py_index INTERVALS 0 = Inr 0.33"
    by (simp add: py_index_def INTERVALS_def)
  show "get_next_interval r q =
        Inr (if q < 3 then 0.33
             else [0.33, 1, 24, 72, 168, 336, 720, 2160, 4320, 8760] ! nat (min (r + 1) 9)
                  * (if q = 5 then 1.3 else if q = 3 then 0.8 else 1))"
    using idx zero
    by (simp add: get_next_interval_def INTERVALS_length) (simp add: INTERVALS_def)
next
  show "get_next_interval 0 4 = Inr 1"
    by (simp add: get_next_interval_def py_index_def INTERVALS_def)
next
  show "get_next_interval 5 5 = Inr (720 * 1.3)"
    by (simp add: get_next_interval_def py_index_def INTERVALS_def)
next
  show "get_next_interval 5 5 = Inr 936"
    by (simp add: get_next_interval_def py_index_def INTERVALS_def)
qed

theorem get_next_interval_ladder_witness:
  "get_next_interval 3 2 = Inr 0.33 \<and> get_next_interval 2 3 = Inr (72 * 0.8)
   \<and> get_next_interval 40 4 = Inr 8760"
proof -
  have a: "get_next_interval 3 2 = Inr 0.33"
    using get_next_interval_ladder by simp
  have b: "get_next_interval 2 3 = Inr (72 * 0.8)"
    using get_next_interval_ladder by simp
  have c: "get_next_interval 40 4 = Inr 8760"
    using get_next_interval_ladder by simp
  show ?thesis using a b c by simp
qed

subsection \<open>The forgetting curve\<close>

lemma exp_neg_half_bounds: "0.6065 < exp (- (1/2) :: real) \<and> exp (- (1/2) :: real) < 0.6066"
proof -
  obtain t :: real where t: "\<bar>t\<bar> \<le> \<bar>- (1/2)\<bar>"
    and e: "exp (- (1/2)) = (\<Sum>m<6. ((- (1/2)) ^ m) / fact m) + (exp t / fact 6) * (- (1/2)) ^ 6"
    using Maclaurin_exp_le [of "- (1/2)" 6] by blast
  have s: "(\<Sum>m<6. ((- (1/2) :: real) ^ m) / fact m) = 2329 / 3840"
    by (simp add: lessThan_nat_numeral lessThan_Suc fact_numeral power_divide)
  have t1: "t \<le> 1" using t by simp
  have "exp t \<le> exp 1" using t1 by simp
  also have "\<dots> \<le> 3" using exp_le by simp
  finally have up: "exp t \<le> 3" .
  have lo: "0 < exp t" by simp
  have r: "(exp t / fact 6) * (- (1/2)) ^ 6 = exp t / 46080"
    by (simp add: fact_numeral power_divide)
  have a: "6065 / 10000 < 2329 / 3840 + exp t / 46080" using lo by linarith
  have b: "2329 / 3840 + exp t / 46080 < 6066 / 10000" using up by linarith
  show ?thesis
    unfolding e s r using a b by simp
qed

lemma float_exp_bounds: "0 \<le> float_exp x" "x \<le> 0 \<Longrightarrow> float_exp x \<le> 1"
  by (simp_all add: float_exp_def)

lemma float_exp_mono: "x \<le> y \<Longrightarrow> float_exp x \<le> float_exp y"
  by (simp add: float_exp_def)

lemma float_exp_exact: "- 745 \<le> x \<Longrightarrow> float_exp x = exp x"
  by (simp add: float_exp_def exp_underflow_bound_def)

lemma calculate_retention_float:
  "0 \<le> h \<Longrightarrow> 0 < s \<Longrightarrow> calculate_retention h s = Inr (float_exp (- h / (s * 24)))"
proof -
  assume h: "0 \<le> h" and s: "0 < s"
  have "- h / (s * 24) \<le> 0" using h s by (simp add: divide_nonpos_pos)
  then have "\<not> exp_overflow_bound < - h / (s * 24)" by (simp add: exp_overflow_bound_def)
  then show ?thesis using s by (simp add: calculate_retention_def math_exp_def)
qed

lemma calculate_retention_value:
  assumes "0 \<le> h" and "0 < s" and "h \<le> 745 * (s * 24)"
  shows "calculate_retention h s = Inr (exp (- h / (s * 24)))"
proof -
  have "- 745 \<le> - h / (s * 24)"
    using assms by (simp add: field_simps)
  then show ?thesis
    using calculate_retention_float [OF assms(1) assms(2)] by (simp add: float_exp_exact)
qed

text \<open>
  C3, as the code has it. For elapsed hours \<open>h \<ge> 0\<close> and a strength \<open>s > 0\<close>,
  \<open>calculate_retention h s\<close> returns \<open>exp (- h / (s * 24))\<close>, or 0.0 once that exponent
  underflows; it is 1 at \<open>h = 0\<close>; it never increases with the elapsed time and never
  decreases with the strength; and \<open>calculate_retention 24 2.0\<close> lies within 0.0001 of
  0.6065. The order is not strict: the value is 1 at \<open>h = 0\<close> for every strength, and it
  is 0.0 for every pair whose exponent underflows.
\<close>

theorem calculate_retention_curve:
  "(\<forall>h s. 0 \<le> h \<and> 0 < s \<longrightarrow>
      calculate_retention h s =
        Inr (if - h / (s * 24) < exp_underflow_bound then 0 else exp (- h / (s * 24))))
   \<and> (\<forall>s. 0 < s \<longrightarrow> calculate_retention 0 s = Inr 1)
   \<and> (\<forall>h1 h2 s. 0 \<le> h1 \<and> h1 \<le> h2 \<and> 0 < s \<longrightarrow>
         (\<exists>r1 r2. calculate_retention h1 s = Inr r1 \<and> calculate_retention h2 s = Inr r2 \<and> r2 \<le> r1))
   \<and> (\<forall>h s1 s2. 0 \<le> h \<and> 0 < s1 \<and> s1 \<le> s2 \<longrightarrow>
         (\<exists>r1 r2. calculate_retention h s1 = Inr r1 \<and> calculate_retention h s2 = Inr r2 \<and> r1 \<le> r2))
   \<and> (\<exists>r. calculate_retention 24 2.0 = Inr r \<and> \<bar>r - 0.6065\<bar> < 1 / 10 ^ 4)"
proof (intro conjI allI impI)
  fix h s :: real
  assume "0 \<le> h \<and> 0 < s"
  then show "calculate_retention h s =
        Inr (if - h / (s * 24) < exp_underflow_bound then 0 else exp (- h / (s * 24)))"
    by (simp add: calculate_retention_float float_exp_def)
next
  fix s :: real
  assume "0 < s"
  then show "calculate_retention 0 s = Inr 1"
    using calculate_retention_value [of 0 s] by simp
next
  fix h1 h2 s :: real
  assume a: "0 \<le> h1 \<and> h1 \<le> h2 \<and> 0 < s"
  then have "- h2 / (s * 24) \<le> - h1 / (s * 24)"
    by (simp add: divide_right_mono)
  then have "float_exp (- h2 / (s * 24)) \<le> float_exp (- h1 / (s * 24))"
    by (rule float_exp_mono)
  then show "\<exists>r1 r2. calculate_retention h1 s = Inr r1 \<and> calculate_retention h2 s = Inr r2 \<and> r2 \<le> r1"
    using a by (simp add: calculate_retention_float)
next
  fix h s1 s2 :: real
  assume a: "0 \<le> h \<and> 0 < s1 \<and> s1 \<le> s2"
  then have "h / (s2 * 24) \<le> h / (s1 * 24)"
    by (intro divide_left_mono) simp_all
  then have "- h / (s1 * 24) \<le> - h / (s2 * 24)" by simp
  then have "float_exp (- h / (s1 * 24)) \<le> float_exp (- h / (s2 * 24))"
    by (rule float_exp_mono)
  then show "\<exists>r1 r2. calculate_retention h s1 = Inr r1 \<and> calculate_retention h s2 = Inr r2 \<and> r1 \<le> r2"
    using a by (simp add: calculate_retention_float)
next
  have v: "calculate_retention 24 2.0 = Inr (exp (- (1/2)))"
    using calculate_retention_value [of 24 2] by simp
  have "\<bar>exp (- (1/2) :: real) - 0.6065\<bar> < 1 / 10 ^ 4"
    using exp_neg_half_bounds by simp
  then show "\<exists>r. calculate_retention 24 2.0 = Inr r \<and> \<bar>r - 0.6065\<bar> < 1 / 10 ^ 4"
    using v by simp
qed

theorem calculate_retention_curve_witness:
  "calculate_retention 48 1 = Inr (exp (- 2)) \<and> calculate_retention 0 3 = Inr 1
   \<and> (\<exists>r1 r2. calculate_retention 24 1 = Inr r1 \<and> calculate_retention 48 1 = Inr r2 \<and> r2 \<le> r1)
   \<and> (\<exists>r1 r2. calculate_retention 24 1 = Inr r1 \<and> calculate_retention 24 2 = Inr r2 \<and> r1 \<le> r2)"
proof -
  have a: "calculate_retention 48 1 = Inr (exp (- 2))"
    using calculate_retention_curve by (simp add: exp_underflow_bound_def)
  have b: "calculate_retention 0 3 = Inr 1"
    using calculate_retention_curve by (simp add: exp_underflow_bound_def)
  have c: "\<exists>r1 r2. calculate_retention 24 1 = Inr r1 \<and> calculate_retention 48 1 = Inr r2 \<and> r2 \<le> r1"
    using calculate_retention_curve by (simp add: exp_underflow_bound_def)
  have d: "\<exists>r1 r2. calculate_retention 24 1 = Inr r1 \<and> calculate_retention 24 2 = Inr r2 \<and> r1 \<le> r2"
    using calculate_retention_curve by (simp add: exp_underflow_bound_def)
  show ?thesis using a b c d by blast
qed

text \<open>
  The ties: at \<open>h = 0\<close> the strengths 1 and 2 give the same retention 1; at strength 1 the
  elapsed times 18000 and 36000 hours give the same retention 0.0, and so do the
  strengths 0.9 and 1 at 18000 hours. The curve is strictly monotonic neither in the
  elapsed time nor in the strength.
\<close>

theorem calculate_retention_ties_counterexample:
  "calculate_retention 0 1 = Inr 1 \<and> calculate_retention 0 2 = Inr 1
   \<and> calculate_retention 18000 1 = Inr 0 \<and> calculate_retention 36000 1 = Inr 0
   \<and> calculate_retention 18000 0.9 = Inr 0"
  by (simp add: calculate_retention_def math_exp_def float_exp_def exp_overflow_bound_def
      exp_underflow_bound_def)

subsection \<open>What a review writes\<close>

lemma find_update_where_id:
  assumes "\<And>r. item_id (f r) = item_id r"
  shows "find (\<lambda>r. item_id r = sid) (update_where_id sid f rows)
         = map_option f (find (\<lambda>r. item_id r = sid) rows)"
  by (induction rows) (simp_all add: update_where_id_def assms)

lemma item_id_set_review [simp]: "item_id (set_review a b c d r) = item_id r"
  by (simp add: set_review_def)

lemma memory_strength_set_review [simp]: "memory_strength (set_review a b c d r) = a"
  by (simp add: set_review_def)

lemma repetition_count_set_review [simp]: "repetition_count (set_review a b c d r) = b"
  by (simp add: set_review_def)

lemma consolidation_state_set_review [simp]:
  "consolidation_state (set_review a b c d r) = consolidation_state r"
  by (simp add: set_review_def)

lemma fetch_item_table_rows:
  "fetch_item conn tbl sid = find (\<lambda>r. item_id r = sid) (table_rows conn tbl)"
  by (simp add: fetch_item_def table_rows_def)

lemma table_rows_write_review:
  "table_rows (write_review conn tbl sid ns nr now nx R q hs) tbl'
   = (if (tbl = ''events'') = (tbl' = ''events'')
      then update_where_id sid (set_review ns nr now nx) (table_rows conn tbl')
      else table_rows conn tbl')"
  by (simp add: write_review_def table_rows_def Let_def)

lemma review_log_write_review:
  "review_log (write_review conn tbl sid ns nr now nx R q hs)
   = review_log conn @ [\<lparr>log_source_table = tbl, log_source_id = sid, retention_before = R,
                          log_quality = q, time_since_last_review_hours = hs\<rparr>]"
  by (simp add: write_review_def Let_def)

lemma fetch_item_write_review:
  "fetch_item (write_review conn tbl sid ns nr now nx R q hs) tbl sid
   = map_option (set_review ns nr now nx) (fetch_item conn tbl sid)"
  by (simp add: fetch_item_table_rows table_rows_write_review find_update_where_id)

text \<open>What one call of \<open>review_item\<close> does to the store.\<close>

lemma review_item_unchanged_or_written:
  "fst (review_item clk conn tbl sid q) = conn \<or>
   (\<exists>row R iv.
      fetch_item conn tbl sid = Some row \<and>
      calculate_retention ((clk 1 - last_or_created row) / 3600) (memory_strength row) = Inr R \<and>
      get_next_interval (snd (review_update (memory_strength row) (repetition_count row) R q)) q = Inr iv \<and>
      fst (review_item clk conn tbl sid q) =
        write_review conn tbl sid
          (fst (review_update (memory_strength row) (repetition_count row) R q))
          (snd (review_update (memory_strength row) (repetition_count row) R q))
          (clk 0) (clk 2 + iv * 3600) R q ((clk 1 - last_or_created row) / 3600))"
  by (simp add: review_item_def Let_def split: option.split sum.split)

lemma review_item_written:
  assumes "fetch_item conn tbl sid = Some row"
    and "calculate_retention ((clk 1 - last_or_created row) / 3600) (memory_strength row) = Inr R"
    and "get_next_interval (snd (review_update (memory_strength row) (repetition_count row) R q)) q = Inr iv"
  shows "fst (review_item clk conn tbl sid q) =
        write_review conn tbl sid
          (fst (review_update (memory_strength row) (repetition_count row) R q))
          (snd (review_update (memory_strength row) (repetition_count row) R q))
          (clk 0) (clk 2 + iv * 3600) R q ((clk 1 - last_or_created row) / 3600)"
  using assms by (simp add: review_item_def Let_def)

lemma get_next_interval_returns:
  assumes "0 \<le> r"
  shows "\<exists>iv. get_next_interval r q = Inr iv"
proof -
  have k: "py_index INTERVALS (min (r + 1) 9) = Inr (INTERVALS ! nat (min (r + 1) 9))"
    using assms by (intro py_index_in_range) (simp_all add: INTERVALS_length)
  have z: "py_index INTERVALS 0 = Inr (INTERVALS ! nat 0)"
    by (intro py_index_in_range) (simp_all add: INTERVALS_length)
  have "get_next_interval r q \<noteq> Inl e" for e
    using k z by (simp add: get_next_interval_def INTERVALS_length Let_def)
  then show ?thesis
    by (cases "get_next_interval r q") auto
qed

lemma snd_review_update_nonneg:
  "0 \<le> r \<Longrightarrow> 0 \<le> snd (review_update s r R q)"
  by (simp add: review_update_def Let_def)

subsection \<open>The strength update\<close>

lemma review_update_success:
  "3 \<le> q \<Longrightarrow> review_update s r R q =
     (min 10 (s * (1.1 + (real_of_int q - 3) * 0.1) * (1 + (1 - R) * 0.5)), r + 1)"
  by (simp add: review_update_def Let_def)

lemma review_update_failure:
  "q < 3 \<Longrightarrow> review_update s r R q = (max 0.5 (s * 0.7), 0)"
  by (simp add: review_update_def)

lemma review_item_fetch_after:
  assumes f: "fetch_item conn tbl sid = Some row"
    and R: "calculate_retention ((clk 1 - last_or_created row) / 3600) (memory_strength row) = Inr R"
    and rep: "0 \<le> repetition_count row"
  shows "\<exists>row'. fetch_item (fst (review_item clk conn tbl sid q)) tbl sid = Some row' \<and>
           memory_strength row' = fst (review_update (memory_strength row) (repetition_count row) R q) \<and>
           repetition_count row' = snd (review_update (memory_strength row) (repetition_count row) R q) \<and>
           consolidation_state row' = consolidation_state row"
proof -
  obtain iv where iv:
    "get_next_interval (snd (review_update (memory_strength row) (repetition_count row) R q)) q = Inr iv"
    using get_next_interval_returns [OF snd_review_update_nonneg [OF rep]] by blast
  have w: "fst (review_item clk conn tbl sid q) =
        write_review conn tbl sid
          (fst (review_update (memory_strength row) (repetition_count row) R q))
          (snd (review_update (memory_strength row) (repetition_count row) R q))
          (clk 0) (clk 2 + iv * 3600) R q ((clk 1 - last_or_created row) / 3600)"
    using f R iv by (rule review_item_written)
  show ?thesis
    unfolding w fetch_item_write_review f
    by simp
qed

lemma review_item_log_after:
  assumes f: "fetch_item conn tbl sid = Some row"
    and R: "calculate_retention ((clk 1 - last_or_created row) / 3600) (memory_strength row) = Inr R"
    and rep: "0 \<le> repetition_count row"
  shows "review_log (fst (review_item clk conn tbl sid q)) =
         review_log conn @ [\<lparr>log_source_table = tbl, log_source_id = sid, retention_before = R,
                          log_quality = q,
                          time_since_last_review_hours = (clk 1 - last_or_created row) / 3600\<rparr>]"
proof -
  obtain iv where iv:
    "get_next_interval (snd (review_update (memory_strength row) (repetition_count row) R q)) q = Inr iv"
    using get_next_interval_returns [OF snd_review_update_nonneg [OF rep]] by blast
  have w: "fst (review_item clk conn tbl sid q) =
        write_review conn tbl sid
          (fst (review_update (memory_strength row) (repetition_count row) R q))
          (snd (review_update (memory_strength row) (repetition_count row) R q))
          (clk 0) (clk 2 + iv * 3600) R q ((clk 1 - last_or_created row) / 3600)"
    using f R iv by (rule review_item_written)
  show ?thesis
    unfolding w review_log_write_review
    by simp
qed

text \<open>
  C1. For an item found by \<open>review_item\<close>, with strength \<open>s\<close>, repetition count
  \<open>r \<ge> 0\<close> and retention \<open>R\<close> computed at review time: after the call the item has strength
  \<open>min 10 (s * (1.1 + (quality - 3) * 0.1) * (1 + (1 - R) * 0.5))\<close> and count \<open>r + 1\<close>
  when the quality is at least 3, and strength \<open>max 0.5 (s * 0.7)\<close> and count 0 when it
  is below 3. For \<open>s = 2.0\<close>, \<open>r = 2\<close>, 24 hours since the last review and quality 5,
  \<open>R\<close> is within 0.0001 of 0.6065, the new strength is 3.11 to two decimals and the new
  count is 3.
\<close>

theorem review_item_strength:
  "(\<forall>clk conn tbl sid q row R.
      fetch_item conn tbl sid = Some row \<and>
      calculate_retention ((clk 1 - last_or_created row) / 3600) (memory_strength row) = Inr R \<and>
      0 \<le> repetition_count row \<longrightarrow>
      (\<exists>row'. fetch_item (fst (review_item clk conn tbl sid q)) tbl sid = Some row' \<and>
         memory_strength row' =
           (if 3 \<le> q
            then min 10.0 (memory_strength row * (1.1 + (real_of_int q - 3) * 0.1) * (1 + (1 - R) * 0.5))
            else max 0.5 (memory_strength row * 0.7)) \<and>
         repetition_count row' = (if 3 \<le> q then repetition_count row + 1 else 0)))
   \<and> (\<forall>clk conn tbl sid row.
      fetch_item conn tbl sid = Some row \<and> memory_strength row = 2.0 \<and> repetition_count row = 2 \<and>
      (clk 1 - last_or_created row) / 3600 = 24 \<longrightarrow>
      (\<exists>row' R. fetch_item (fst (review_item clk conn tbl sid 5)) tbl sid = Some row' \<and>
         calculate_retention 24 2.0 = Inr R \<and> \<bar>R - 0.6065\<bar> < 1 / 10 ^ 4 \<and>
         \<bar>memory_strength row' - 3.11\<bar> < 5 / 10 ^ 3 \<and>
         repetition_count row' = 3))"
proof (intro conjI allI impI)
  fix clk :: clock and conn tbl sid q row R
  assume a: "fetch_item conn tbl sid = Some row \<and>
      calculate_retention ((clk 1 - last_or_created row) / 3600) (memory_strength row) = Inr R \<and>
      0 \<le> repetition_count row"
  then obtain row' where r:
    "fetch_item (fst (review_item clk conn tbl sid q)) tbl sid = Some row'"
    "memory_strength row' = fst (review_update (memory_strength row) (repetition_count row) R q)"
    "repetition_count row' = snd (review_update (memory_strength row) (repetition_count row) R q)"
    using review_item_fetch_after [of conn tbl sid row clk R q] by blast
  show "\<exists>row'. fetch_item (fst (review_item clk conn tbl sid q)) tbl sid = Some row' \<and>
         memory_strength row' =
           (if 3 \<le> q
            then min 10.0 (memory_strength row * (1.1 + (real_of_int q - 3) * 0.1) * (1 + (1 - R) * 0.5))
            else max 0.5 (memory_strength row * 0.7)) \<and>
         repetition_count row' = (if 3 \<le> q then repetition_count row + 1 else 0)"
  proof (cases "3 \<le> q")
    case True
    then show ?thesis using r by (simp add: review_update_success)
  next
    case False
    then show ?thesis using r by (simp add: review_update_failure)
  qed
next
  fix clk :: clock and conn tbl sid row
  assume a: "fetch_item conn tbl sid = Some row \<and> memory_strength row = 2.0 \<and> repetition_count row = 2 \<and>
      (clk 1 - last_or_created row) / 3600 = 24"
  have v: "calculate_retention 24 2.0 = Inr (exp (- (1/2)))"
    using calculate_retention_value [of 24 2] by simp
  have R: "calculate_retention ((clk 1 - last_or_created row) / 3600) (memory_strength row) = Inr (exp (- (1/2)))"
    using a v by simp
  obtain row' where r:
    "fetch_item (fst (review_item clk conn tbl sid 5)) tbl sid = Some row'"
    "memory_strength row' = fst (review_update (memory_strength row) (repetition_count row) (exp (- (1/2))) 5)"
    "repetition_count row' = snd (review_update (memory_strength row) (repetition_count row) (exp (- (1/2))) 5)"
    using a review_item_fetch_after [of conn tbl sid row clk "exp (- (1/2))" 5, OF _ R] by auto
  have lo: "6065 / 10000 < exp (- (1/2) :: real)" and hi: "exp (- (1/2) :: real) < 6066 / 10000"
    using exp_neg_half_bounds by simp_all
  have st: "memory_strength row' = min 10 (2 * (13 / 10) * (1 + (1 - exp (- (1/2))) * (1/2)))"
    using r(2) a by (simp add: review_update_success)
  have eq: "2 * (13 / 10) * (1 + (1 - exp (- (1/2) :: real)) * (1/2)) = 39 / 10 - 13 / 10 * exp (- (1/2))"
    by (simp add: algebra_simps)
  have le: "2 * (13 / 10) * (1 + (1 - exp (- (1/2) :: real)) * (1/2)) \<le> 10"
    unfolding eq using lo by linarith
  have b1: "3105 / 1000 < 2 * (13 / 10) * (1 + (1 - exp (- (1/2) :: real)) * (1/2))"
    unfolding eq using hi by linarith
  have b2: "2 * (13 / 10) * (1 + (1 - exp (- (1/2) :: real)) * (1/2)) < 3115 / 1000"
    unfolding eq using lo by linarith
  have s3: "\<bar>memory_strength row' - 3.11\<bar> < 5 / 10 ^ 3"
    unfolding st using le b1 b2 by (simp add: min_def abs_if)
  have rc: "repetition_count row' = 3"
    using r(3) a by (simp add: review_update_success)
  have rr: "\<bar>exp (- (1/2) :: real) - 0.6065\<bar> < 1 / 10 ^ 4"
    using lo hi by (simp add: abs_if)
  show "\<exists>row' R. fetch_item (fst (review_item clk conn tbl sid 5)) tbl sid = Some row' \<and>
         calculate_retention 24 2.0 = Inr R \<and> \<bar>R - 0.6065\<bar> < 1 / 10 ^ 4 \<and>
         \<bar>memory_strength row' - 3.11\<bar> < 5 / 10 ^ 3 \<and>
         repetition_count row' = 3"
    using r(1) v rr s3 rc by blast
qed

lemma fetch_sample_event:
  "fetch_item (sample_store [sample_item i imp s r c st] ls) ''events'' i = Some (sample_item i imp s r c st)"
  by (simp add: fetch_item_def sample_store_def sample_item_def)

lemma sample_item_fields [simp]:
  "memory_strength (sample_item i imp s r c st) = s"
  "repetition_count (sample_item i imp s r c st) = r"
  "last_or_created (sample_item i imp s r c st) = c"
  "importance (sample_item i imp s r c st) = imp"
  "consolidation_state (sample_item i imp s r c st) = st"
  "item_id (sample_item i imp s r c st) = i"
  by (simp_all add: sample_item_def last_or_created_def)

theorem review_item_strength_witness:
  "(\<exists>row'. fetch_item (fst (review_item (\<lambda>k. 86400) (sample_store [sample_item 1 0.5 2.0 2 0 ''active''] [])
                                ''events'' 1 1)) ''events'' 1 = Some row' \<and>
           memory_strength row' = 1.4 \<and> repetition_count row' = 0)
   \<and> (\<exists>row' R. fetch_item (fst (review_item (\<lambda>k. 86400) (sample_store [sample_item 1 0.5 2.0 2 0 ''active''] [])
                                ''events'' 1 5)) ''events'' 1 = Some row' \<and>
         calculate_retention 24 2.0 = Inr R \<and> \<bar>R - 0.6065\<bar> < 1 / 10 ^ 4 \<and>
         \<bar>memory_strength row' - 3.11\<bar> < 5 / 10 ^ 3 \<and>
         repetition_count row' = 3)"
proof -
  let ?conn = "sample_store [sample_item 1 0.5 2.0 2 0 ''active''] []"
  let ?row = "sample_item 1 0.5 2.0 2 0 ''active''"
  let ?clk = "(\<lambda>k. 86400) :: clock"
  have f: "fetch_item ?conn ''events'' 1 = Some ?row"
    by (rule fetch_sample_event)
  have R: "calculate_retention ((?clk 1 - last_or_created ?row) / 3600) (memory_strength ?row)
           = Inr (exp (- (1/2)))"
    using calculate_retention_value [of 24 2] by simp
  have a: "\<exists>row'. fetch_item (fst (review_item ?clk ?conn ''events'' 1 1)) ''events'' 1 = Some row' \<and>
           memory_strength row' = 1.4 \<and> repetition_count row' = 0"
    using review_item_strength [THEN conjunct1, rule_format,
            of ?conn "''events''" 1 ?row ?clk "exp (- (1/2))" 1] f R
    by simp
  have b: "\<exists>row' R. fetch_item (fst (review_item ?clk ?conn ''events'' 1 5)) ''events'' 1 = Some row' \<and>
         calculate_retention 24 2.0 = Inr R \<and> \<bar>R - 0.6065\<bar> < 1 / 10 ^ 4 \<and>
         \<bar>memory_strength row' - 3.11\<bar> < 5 / 10 ^ 3 \<and>
         repetition_count row' = 3"
    using review_item_strength [THEN conjunct2, rule_format,
            of ?conn "''events''" 1 ?row ?clk] f
    by simp
  show ?thesis using a b by blast
qed

lemma retention_le_one:
  assumes "0 \<le> h" "0 < s" "calculate_retention h s = Inr R"
  shows "0 \<le> R \<and> R \<le> 1"
proof -
  have "R = float_exp (- h / (s * 24))"
    using assms calculate_retention_float [of h s] by simp
  moreover have "- h / (s * 24) \<le> 0" using assms by (simp add: divide_nonpos_pos)
  ultimately show ?thesis by (simp add: float_exp_bounds)
qed

lemma review_update_success_ge:
  assumes q: "3 \<le> q" and s: "0 \<le> s" "s \<le> 10" and R: "R \<le> 1"
  shows "s \<le> fst (review_update s r R q)"
proof -
  have "0 \<le> (real_of_int q - 3) * 0.1" using q by simp
  then have m: "1 \<le> 1.1 + (real_of_int q - 3) * 0.1" by linarith
  have b: "1 \<le> 1 + (1 - R) * 0.5" using R by simp
  have "1 * 1 \<le> (1.1 + (real_of_int q - 3) * 0.1) * (1 + (1 - R) * 0.5)"
    using m b by (intro mult_mono) simp_all
  then have "s * 1 \<le> s * ((1.1 + (real_of_int q - 3) * 0.1) * (1 + (1 - R) * 0.5))"
    using s(1) by (intro mult_left_mono) simp_all
  then have "s \<le> s * (1.1 + (real_of_int q - 3) * 0.1) * (1 + (1 - R) * 0.5)"
    by (simp add: mult.assoc)
  then show ?thesis using q s(2) by (simp add: review_update_success)
qed

lemma review_update_failure_le:
  assumes q: "q < 3" and s: "0.5 \<le> s"
  shows "fst (review_update s r R q) \<le> s"
  using assms by (simp add: review_update_failure)

lemma review_update_in_range:
  assumes s: "0.5 \<le> s" "s \<le> 10" and R: "R \<le> 1"
  shows "0.5 \<le> fst (review_update s r R q) \<and> fst (review_update s r R q) \<le> 10"
proof (cases "3 \<le> q")
  case True
  have "s \<le> fst (review_update s r R q)"
    using True s R by (intro review_update_success_ge) simp_all
  moreover have "fst (review_update s r R q) \<le> 10"
    using True by (simp add: review_update_success)
  ultimately show ?thesis using s by simp
next
  case False
  then show ?thesis using s by (simp add: review_update_failure)
qed

text \<open>
  C10. For an item with strength in \<open>[0.5, 10]\<close> whose last-review (or creation) time is
  not after the clock reading of the review, so that the retention computed is at most 1:
  a review with quality at least 3 never decreases the strength, and a review with
  quality below 3 never increases it.
\<close>

theorem strength_direction_of_review:
  assumes f: "fetch_item conn tbl sid = Some row"
    and s: "0.5 \<le> memory_strength row" "memory_strength row \<le> 10.0"
    and t: "last_or_created row \<le> clk 1"
  shows "\<exists>row'. fetch_item (fst (review_item clk conn tbl sid q)) tbl sid = Some row' \<and>
           (3 \<le> q \<longrightarrow> memory_strength row \<le> memory_strength row') \<and>
           (q < 3 \<longrightarrow> memory_strength row' \<le> memory_strength row)"
proof -
  let ?h = "(clk 1 - last_or_created row) / 3600"
  have h: "0 \<le> ?h" using t by simp
  have s0: "0 < memory_strength row" "0 \<le> memory_strength row" using s(1) by simp_all
  consider (same) "fst (review_item clk conn tbl sid q) = conn"
    | (written) R iv where
        "calculate_retention ?h (memory_strength row) = Inr R"
        "fst (review_item clk conn tbl sid q) =
           write_review conn tbl sid
             (fst (review_update (memory_strength row) (repetition_count row) R q))
             (snd (review_update (memory_strength row) (repetition_count row) R q))
             (clk 0) (clk 2 + iv * 3600) R q ?h"
    using review_item_unchanged_or_written [of clk conn tbl sid q] f by auto
  then show ?thesis
  proof cases
    case same
    then show ?thesis using f by simp
  next
    case written
    have R: "R \<le> 1"
      using retention_le_one [OF h s0(1) written(1)] by simp
    have up: "3 \<le> q \<Longrightarrow> memory_strength row
                \<le> fst (review_update (memory_strength row) (repetition_count row) R q)"
      using s0(2) s(2) R by (intro review_update_success_ge) simp_all
    have down: "q < 3 \<Longrightarrow> fst (review_update (memory_strength row) (repetition_count row) R q)
                \<le> memory_strength row"
      using s(1) by (intro review_update_failure_le) simp_all
    show ?thesis
      unfolding written(2) fetch_item_write_review f using up down by simp
  qed
qed

theorem strength_direction_of_review_witness:
  "(\<exists>row'. fetch_item (fst (review_item (\<lambda>k. 86400) (sample_store [sample_item 1 0.5 2.0 2 0 ''active''] [])
                                ''events'' 1 4)) ''events'' 1 = Some row' \<and>
            2 \<le> memory_strength row')
   \<and> (\<exists>row'. fetch_item (fst (review_item (\<lambda>k. 86400) (sample_store [sample_item 1 0.5 2.0 2 0 ''active''] [])
                                ''events'' 1 2)) ''events'' 1 = Some row' \<and>
            memory_strength row' \<le> 2)"
proof -
  let ?conn = "sample_store [sample_item 1 0.5 2.0 2 0 ''active''] []"
  let ?row = "sample_item 1 0.5 2.0 2 0 ''active''"
  let ?clk = "(\<lambda>k. 86400) :: clock"
  have f: "fetch_item ?conn ''events'' 1 = Some ?row"
    by (rule fetch_sample_event)
  have a: "\<exists>row'. fetch_item (fst (review_item ?clk ?conn ''events'' 1 4)) ''events'' 1 = Some row' \<and>
            2 \<le> memory_strength row'"
    using strength_direction_of_review [of ?conn "''events''" 1 ?row ?clk 4] f by simp
  have b: "\<exists>row'. fetch_item (fst (review_item ?clk ?conn ''events'' 1 2)) ''events'' 1 = Some row' \<and>
            memory_strength row' \<le> 2"
    using strength_direction_of_review [of ?conn "''events''" 1 ?row ?clk 2] f by simp
  show ?thesis using a b by blast
qed

subsection \<open>One forgetting formula\<close>

lemma julianday_diff: "(julianday now - julianday t) * 24 = (now - t) / 3600"
  by (simp add: julianday_def field_simps)

text \<open>
  C9. The decay arithmetic written into the query of \<open>process_decay\<close> and
  \<open>calculate_retention\<close> are one formula: for elapsed days \<open>d \<ge> 0\<close> and a strength
  \<open>s > 0\<close> the query's \<open>EXP(-(d * 24) / (s * 24))\<close> is the value \<open>calculate_retention\<close>
  returns for \<open>d * 24\<close> hours and strength \<open>s\<close>; and for a row whose last-review (or
  creation) time is not after \<open>now\<close> the query computes what \<open>calculate_retention\<close>
  returns for the hours \<open>review_item\<close> would measure, so that the row is a candidate
  exactly when it is not forgotten, its importance is below 0.3 and that retention is
  below 0.1.
\<close>

theorem sql_retention_is_calculate_retention:
  "(\<forall>days strength. 0 \<le> days \<and> 0 < strength \<longrightarrow>
      (\<exists>x. sql_retention days strength = Some x \<and>
           calculate_retention (days * 24) strength = Inr x))
   \<and> (\<forall>now r. last_or_created r \<le> now \<and> 0 < memory_strength r \<longrightarrow>
      (\<exists>x. decay_retention now r = Some x \<and>
           calculate_retention ((now - last_or_created r) / 3600) (memory_strength r) = Inr x \<and>
           (decay_candidate now r \<longleftrightarrow>
              consolidation_state r \<noteq> ''forgotten'' \<and> importance r < 0.3 \<and> x < 0.1)))"
proof (intro conjI allI impI)
  fix days strength :: real
  assume a: "0 \<le> days \<and> 0 < strength"
  then have "calculate_retention (days * 24) strength = Inr (float_exp (- (days * 24) / (strength * 24)))"
    by (intro calculate_retention_float) simp_all
  moreover have "sql_retention days strength = Some (float_exp (- (days * 24) / (strength * 24)))"
    using a by (simp add: sql_retention_def)
  ultimately show "\<exists>x. sql_retention days strength = Some x \<and>
           calculate_retention (days * 24) strength = Inr x"
    by simp
next
  fix now :: real and r :: item
  assume a: "last_or_created r \<le> now \<and> 0 < memory_strength r"
  let ?h = "(now - last_or_created r) / 3600"
  have h: "0 \<le> ?h" using a by simp
  have c: "calculate_retention ?h (memory_strength r) = Inr (float_exp (- ?h / (memory_strength r * 24)))"
    using h a by (intro calculate_retention_float) simp_all
  have d: "decay_retention now r = Some (float_exp (- ?h / (memory_strength r * 24)))"
    using a unfolding decay_retention_def sql_retention_def julianday_diff by simp
  show "\<exists>x. decay_retention now r = Some x \<and>
           calculate_retention ?h (memory_strength r) = Inr x \<and>
           (decay_candidate now r \<longleftrightarrow>
              consolidation_state r \<noteq> ''forgotten'' \<and> importance r < 0.3 \<and> x < 0.1)"
    using c d by (simp add: decay_candidate_def)
qed


theorem sql_retention_is_calculate_retention_witness:
  "(\<exists>x. sql_retention 1 2 = Some x \<and> calculate_retention 24 2 = Inr x)
   \<and> (\<exists>x. decay_retention 86400 (sample_item 1 0.1 2 0 0 ''active'') = Some x \<and>
           calculate_retention 24 2 = Inr x \<and>
           (decay_candidate 86400 (sample_item 1 0.1 2 0 0 ''active'') \<longleftrightarrow> x < 0.1))"
proof -
  have a: "\<exists>x. sql_retention 1 2 = Some x \<and> calculate_retention 24 2 = Inr x"
    using sql_retention_is_calculate_retention [THEN conjunct1, rule_format, of 1 2] by simp
  have b: "\<exists>x. decay_retention 86400 (sample_item 1 0.1 2 0 0 ''active'') = Some x \<and>
           calculate_retention 24 2 = Inr x \<and>
           (decay_candidate 86400 (sample_item 1 0.1 2 0 0 ''active'') \<longleftrightarrow> x < 0.1)"
    using sql_retention_is_calculate_retention [THEN conjunct2, rule_format,
            of "sample_item 1 0.1 2 0 0 ''active''" 86400] by simp
  show ?thesis using a b by blast
qed

subsection \<open>Elapsed time\<close>

text \<open>
  When the stored time is not after the clock reading (the strength positive, the
  repetition count not negative), the log row written has an elapsed time of at least
  0 and a retention in \<open>[0, 1]\<close>.
\<close>

lemma review_item_elapsed:
  assumes f: "fetch_item conn tbl sid = Some row"
    and t: "last_or_created row \<le> clk 1"
    and s: "0 < memory_strength row"
    and rep: "0 \<le> repetition_count row"
  shows "\<exists>e. review_log (fst (review_item clk conn tbl sid q)) = review_log conn @ [e] \<and>
           time_since_last_review_hours e = (clk 1 - last_or_created row) / 3600 \<and>
           0 \<le> time_since_last_review_hours e \<and>
           calculate_retention (time_since_last_review_hours e) (memory_strength row)
             = Inr (retention_before e) \<and>
           0 \<le> retention_before e \<and> retention_before e \<le> 1"
proof -
  let ?h = "(clk 1 - last_or_created row) / 3600"
  let ?R = "float_exp (- ?h / (memory_strength row * 24))"
  have h: "0 \<le> ?h" using t by simp
  have R: "calculate_retention ?h (memory_strength row) = Inr ?R"
    using h s by (rule calculate_retention_float)
  have b: "0 \<le> ?R \<and> ?R \<le> 1"
    using h s R by (rule retention_le_one)
  have l: "review_log (fst (review_item clk conn tbl sid q)) =
         review_log conn @ [\<lparr>log_source_table = tbl, log_source_id = sid,
                          retention_before = ?R,
                          log_quality = q, time_since_last_review_hours = ?h\<rparr>]"
    using f R rep by (rule review_item_log_after)
  show ?thesis
    unfolding l using h R b by simp
qed

text \<open>
  C8. The elapsed time of a review is to be at least 0, a review of an item dated in the
  future is to fail without writing, and the retention logged is to lie in \<open>[0, 1]\<close>.
  \<open>review_item\<close> never compares the stored time with the clock: an event dated one hour
  after the clock reading is reviewed all the same, the event is updated and the log
  row written has \<open>-1\<close> elapsed hours and a retention above 1.
\<close>

theorem review_item_future_time_written:
  "review_item (\<lambda>k. 86400) (sample_store [sample_item 1 0.5 1 0 90000 ''active''] []) ''events'' 1 4
   = (\<lparr>events = [set_review (fst (review_update 1 0 (exp (1 / 24)) 4)) 1 86400 (86400 + 24 * 3600)
                    (sample_item 1 0.5 1 0 90000 ''active'')],
       lessons = [],
       review_log = [\<lparr>log_source_table = ''events'', log_source_id = 1,
                      retention_before = exp (1 / 24), log_quality = 4,
                      time_since_last_review_hours = - 1\<rparr>]\<rparr>, Recorded)
   \<and> 1 < exp (1 / 24 :: real)"
proof -
  have R: "calculate_retention (- 1) 1 = Inr (exp (1 / 24))"
    by (simp add: calculate_retention_def math_exp_def float_exp_def exp_overflow_bound_def
        exp_underflow_bound_def)
  have u: "snd (review_update 1 0 (exp (1 / 24)) 4) = 1"
    by (simp add: review_update_def)
  have i: "get_next_interval 1 4 = Inr 24"
    by (simp add: get_next_interval_def py_index_def INTERVALS_def)
  have l: "py_index quality_labels 4 = Inr ''Good''"
    by (simp add: py_index_def quality_labels_def)
  show ?thesis
    by (simp add: review_item_def fetch_item_def sample_store_def last_or_created_def
        R u i l write_review_def update_where_id_def sample_item_def)
qed

subsection \<open>Rows keep their place\<close>

lemma update_where_id_all2:
  assumes "\<And>r. r \<in> set rows \<Longrightarrow> item_id r = sid \<Longrightarrow> P r (f r)" and "\<And>r. P r r"
  shows "list_all2 P rows (update_where_id sid f rows)"
  using assms by (induction rows) (simp_all add: update_where_id_def)

lemma fetch_item_in_rows:
  "fetch_item conn tbl sid = Some row \<Longrightarrow> row \<in> set (table_rows conn tbl) \<and> item_id row = sid"
  by (auto simp: fetch_item_table_rows find_Some_iff)

text \<open>Each row after a review is the row before, or that row with the SET clause applied.\<close>

lemma review_item_rows:
  assumes refl: "\<And>r. P r r"
    and step: "\<And>row R iv r.
       fetch_item conn tbl sid = Some row \<Longrightarrow>
       calculate_retention ((clk 1 - last_or_created row) / 3600) (memory_strength row) = Inr R \<Longrightarrow>
       (tbl = ''events'') = (tbl' = ''events'') \<Longrightarrow>
       r \<in> set (table_rows conn tbl') \<Longrightarrow> item_id r = sid \<Longrightarrow>
       P r (set_review (fst (review_update (memory_strength row) (repetition_count row) R q))
                       (snd (review_update (memory_strength row) (repetition_count row) R q))
                       (clk 0) (clk 2 + iv * 3600) r)"
  shows "list_all2 P (table_rows conn tbl') (table_rows (fst (review_item clk conn tbl sid q)) tbl')"
proof -
  consider (same) "fst (review_item clk conn tbl sid q) = conn"
    | (written) row R iv where
        "fetch_item conn tbl sid = Some row"
        "calculate_retention ((clk 1 - last_or_created row) / 3600) (memory_strength row) = Inr R"
        "fst (review_item clk conn tbl sid q) =
           write_review conn tbl sid
             (fst (review_update (memory_strength row) (repetition_count row) R q))
             (snd (review_update (memory_strength row) (repetition_count row) R q))
             (clk 0) (clk 2 + iv * 3600) R q ((clk 1 - last_or_created row) / 3600)"
    using review_item_unchanged_or_written [of clk conn tbl sid q] by auto
  then show ?thesis
  proof cases
    case same
    then show ?thesis using refl by (simp add: list_all2_refl)
  next
    case written
    show ?thesis
    proof (cases "(tbl = ''events'') = (tbl' = ''events'')")
      case True
      have "list_all2 P (table_rows conn tbl')
              (update_where_id sid
                 (set_review (fst (review_update (memory_strength row) (repetition_count row) R q))
                             (snd (review_update (memory_strength row) (repetition_count row) R q))
                             (clk 0) (clk 2 + iv * 3600))
                 (table_rows conn tbl'))"
        using step [OF written(1) written(2) True] refl
        by (intro update_where_id_all2) simp_all
      then show ?thesis
        unfolding written(3) table_rows_write_review using True by simp
    next
      case False
      then show ?thesis
        unfolding written(3) table_rows_write_review using refl by (simp add: list_all2_refl)
    qed
  qed
qed

lemma review_log_process_decay: "review_log (fst (process_decay clk conn dry)) = review_log conn"
  by (simp add: process_decay_def Let_def)

lemma lessons_process_decay: "lessons (fst (process_decay clk conn dry)) = lessons conn"
  by (simp add: process_decay_def Let_def)

lemma process_decay_dry: "fst (process_decay clk conn True) = conn"
  by (simp add: process_decay_def Let_def)

text \<open>Each event after a sweep is the event before, or that event marked forgotten.\<close>

lemma process_decay_events:
  assumes refl: "\<And>r. P r r"
    and step: "\<And>r. r \<in> set (events conn) \<Longrightarrow> \<not> dry \<Longrightarrow>
                 P r (r\<lparr>consolidation_state := ''forgotten''\<rparr>)"
  shows "list_all2 P (events conn) (events (fst (process_decay clk conn dry)))"
proof -
  have m: "list_all2 P rows (map (\<lambda>r. if c r then r\<lparr>consolidation_state := ''forgotten''\<rparr> else r) rows)"
    if "\<And>r. r \<in> set rows \<Longrightarrow> P r (r\<lparr>consolidation_state := ''forgotten''\<rparr>)" for rows c
    using that refl by (induction rows) simp_all
  show ?thesis
  proof (cases dry)
    case True
    then show ?thesis using refl by (simp add: process_decay_dry list_all2_refl)
  next
    case False
    then show ?thesis
      using m [of "events conn"] step refl
      by (simp add: process_decay_def Let_def list_all2_refl)
  qed
qed

lemma process_decay_table_rows:
  assumes refl: "\<And>r. P r r"
    and step: "\<And>r. r \<in> set (table_rows conn tbl) \<Longrightarrow> P r (r\<lparr>consolidation_state := ''forgotten''\<rparr>)"
  shows "list_all2 P (table_rows conn tbl) (table_rows (fst (process_decay clk conn dry)) tbl)"
proof (cases "tbl = ''events''")
  case True
  then show ?thesis
    using process_decay_events [of P conn dry clk] refl step by (simp add: table_rows_def)
next
  case False
  then show ?thesis using refl by (simp add: table_rows_def lessons_process_decay list_all2_refl)
qed


lemma table_rows_simps [simp]:
  "table_rows conn ''events'' = events conn"
  "table_rows conn ''lessons'' = lessons conn"
  by (simp_all add: table_rows_def)

lemma list_all2_same_field:
  "list_all2 (\<lambda>r r'. f r' = f r) xs ys \<Longrightarrow> map f ys = map f xs"
  by (induction xs ys rule: list_all2_induct) simp_all

lemma review_item_keeps_state:
  "map consolidation_state (table_rows (fst (review_item clk conn tbl sid q)) tbl')
   = map consolidation_state (table_rows conn tbl')"
  by (rule list_all2_same_field, rule review_item_rows) simp_all

lemma exp_minus_100: "exp (- 100 :: real) < 1 / 10"
proof -
  have "1 + 100 \<le> exp (100 :: real)" by (rule exp_ge_add_one_self)
  then have "10 < exp (100 :: real)" by linarith
  then have "1 / exp (100 :: real) < 1 / 10"
    by (intro divide_strict_left_mono) simp_all
  then show ?thesis by (simp add: exp_minus inverse_eq_divide)
qed

lemma sample_decays: "decay_candidate 8640000 (sample_item i 0.1 1 n 0 ''active'')"
  using exp_minus_100
  by (simp add: decay_candidate_def decay_retention_def sql_retention_def julianday_def
      float_exp_def exp_underflow_bound_def
      sample_item_def last_or_created_def)

subsection \<open>The consolidation state\<close>

lemma run_op_events_one_way: "list_all2 one_way (events conn) (events (run_op conn op))"
proof (cases op)
  case (Review clk tbl sid q)
  have "list_all2 one_way (table_rows conn ''events'')
          (table_rows (fst (review_item clk conn tbl sid q)) ''events'')"
    by (rule review_item_rows) (simp_all add: one_way_def)
  then show ?thesis using Review by simp
next
  case (Sweep clk dry)
  have "list_all2 one_way (events conn) (events (fst (process_decay clk conn dry)))"
    by (rule process_decay_events) (simp_all add: one_way_def)
  then show ?thesis using Sweep by simp
qed

lemma run_ops_events_one_way: "list_all2 one_way (events conn) (events (run_ops conn ops))"
proof (induction ops arbitrary: conn)
  case Nil
  then show ?case by (simp add: run_ops_def list_all2_refl one_way_def)
next
  case (Cons op ops)
  have a: "list_all2 one_way (events conn) (events (run_op conn op))"
    by (rule run_op_events_one_way)
  have b: "list_all2 one_way (events (run_op conn op)) (events (run_ops (run_op conn op) ops))"
    by (rule Cons.IH)
  have "list_all2 one_way (events conn) (events (run_ops (run_op conn op) ops))"
    using a b by (rule list_all2_trans [rotated]) (simp add: one_way_def)
  then show ?case by (simp add: run_ops_def)
qed

lemma run_op_lessons_state:
  "map consolidation_state (lessons (run_op conn op)) = map consolidation_state (lessons conn)"
proof (cases op)
  case (Review clk tbl sid q)
  then show ?thesis using review_item_keeps_state [of clk conn tbl sid q "''lessons''"] by simp
next
  case (Sweep clk dry)
  then show ?thesis by (simp add: lessons_process_decay)
qed

lemma run_ops_lessons_state:
  "map consolidation_state (lessons (run_ops conn ops)) = map consolidation_state (lessons conn)"
proof (induction ops arbitrary: conn)
  case Nil
  then show ?case by (simp add: run_ops_def)
next
  case (Cons op ops)
  have "map consolidation_state (lessons (run_ops (run_op conn op) ops))
        = map consolidation_state (lessons (run_op conn op))"
    by (rule Cons.IH)
  then show ?case by (simp add: run_ops_def run_op_lessons_state)
qed

lemma process_decay_state_change:
  "list_all2 (\<lambda>r r'. consolidation_state r' = consolidation_state r \<or>
                      (\<not> dry \<and> consolidation_state r \<noteq> ''forgotten'' \<and>
                       consolidation_state r' = ''forgotten''))
     (events conn) (events (fst (process_decay clk conn dry)))"
  by (rule process_decay_events) auto


text \<open>
  C6. Over every sequence of reviews and sweeps no row leaves the state \<open>forgotten\<close>:
  an event that is forgotten stays forgotten (tables keep their rows in place), and the
  states of the lessons never change. \<open>review_item\<close> changes no consolidation state, a
  dry-run sweep changes nothing, and an operation that changes the state of an event is
  a sweep in apply mode taking it from a state other than \<open>forgotten\<close> to \<open>forgotten\<close>.
\<close>

theorem consolidation_state_one_way:
  "(\<forall>clk conn tbl sid q.
      map consolidation_state (events (fst (review_item clk conn tbl sid q)))
        = map consolidation_state (events conn) \<and>
      map consolidation_state (lessons (fst (review_item clk conn tbl sid q)))
        = map consolidation_state (lessons conn))
   \<and> (\<forall>clk conn. fst (process_decay clk conn True) = conn)
   \<and> (\<forall>conn ops.
        length (events (run_ops conn ops)) = length (events conn) \<and>
        map consolidation_state (lessons (run_ops conn ops)) = map consolidation_state (lessons conn) \<and>
        (\<forall>i. i < length (events conn) \<and> consolidation_state (events conn ! i) = ''forgotten'' \<longrightarrow>
             consolidation_state (events (run_ops conn ops) ! i) = ''forgotten''))
   \<and> (\<forall>conn op i.
        i < length (events conn) \<and>
        consolidation_state (events (run_op conn op) ! i) \<noteq> consolidation_state (events conn ! i) \<longrightarrow>
        (\<exists>clk. op = Sweep clk False) \<and>
        consolidation_state (events conn ! i) \<noteq> ''forgotten'' \<and>
        consolidation_state (events (run_op conn op) ! i) = ''forgotten'')"
proof (intro conjI allI impI)
  fix clk :: clock and conn tbl sid q
  show "map consolidation_state (events (fst (review_item clk conn tbl sid q)))
        = map consolidation_state (events conn)"
    using review_item_keeps_state [of clk conn tbl sid q "''events''"] by simp
  show "map consolidation_state (lessons (fst (review_item clk conn tbl sid q)))
        = map consolidation_state (lessons conn)"
    using review_item_keeps_state [of clk conn tbl sid q "''lessons''"] by simp
next
  fix clk :: clock and conn
  show "fst (process_decay clk conn True) = conn" by (rule process_decay_dry)
next
  fix conn :: database and ops
  show "length (events (run_ops conn ops)) = length (events conn)"
    using run_ops_events_one_way [of conn ops] by (simp add: list_all2_lengthD)
  show "map consolidation_state (lessons (run_ops conn ops)) = map consolidation_state (lessons conn)"
    by (rule run_ops_lessons_state)
next
  fix conn :: database and ops i
  assume a: "i < length (events conn) \<and> consolidation_state (events conn ! i) = ''forgotten''"
  then have "one_way (events conn ! i) (events (run_ops conn ops) ! i)"
    using run_ops_events_one_way [of conn ops] by (simp add: list_all2_nthD)
  then show "consolidation_state (events (run_ops conn ops) ! i) = ''forgotten''"
    using a by (simp add: one_way_def)
next
  fix conn :: database and op i
  assume a: "i < length (events conn) \<and>
        consolidation_state (events (run_op conn op) ! i) \<noteq> consolidation_state (events conn ! i)"
  have c: "(\<exists>clk. op = Sweep clk False) \<and>
        consolidation_state (events conn ! i) \<noteq> ''forgotten'' \<and>
        consolidation_state (events (run_op conn op) ! i) = ''forgotten''"
  proof (cases op)
    case (Review clk tbl sid q)
    have "map consolidation_state (events (run_op conn op)) = map consolidation_state (events conn)"
      using Review review_item_keeps_state [of clk conn tbl sid q "''events''"] by simp
    then have "consolidation_state (events (run_op conn op) ! i) = consolidation_state (events conn ! i)"
      using a by (metis length_map nth_map)
    then show ?thesis using a by simp
  next
    case (Sweep clk dry)
    have "consolidation_state (events (run_op conn op) ! i) = consolidation_state (events conn ! i) \<or>
          (\<not> dry \<and> consolidation_state (events conn ! i) \<noteq> ''forgotten'' \<and>
           consolidation_state (events (run_op conn op) ! i) = ''forgotten'')"
      using Sweep a list_all2_nthD [OF process_decay_state_change [of dry conn clk], of i] by auto
    then show ?thesis using a Sweep by auto
  qed
  show "\<exists>clk. op = Sweep clk False" using c by simp
  show "consolidation_state (events conn ! i) \<noteq> ''forgotten''" using c by simp
  show "consolidation_state (events (run_op conn op) ! i) = ''forgotten''" using c by simp
qed


lemma sample_forget:
  "(sample_item i imp s n c st)\<lparr>consolidation_state := ''forgotten''\<rparr> = sample_item i imp s n c ''forgotten''"
  by (simp add: sample_item_def)

lemma sample_important: "\<not> decay_candidate t (sample_item i 0.9 s n c st)"
  by (simp add: decay_candidate_def)

theorem consolidation_state_one_way_witness:
  "consolidation_state
     (events (run_ops (sample_store [sample_item 1 0.1 1 0 0 ''forgotten''] [])
                [Review (\<lambda>k. 8640000) ''events'' 1 5, Sweep (\<lambda>k. 8640000) False,
                 Review (\<lambda>k. 8640000) ''lessons'' 1 0]) ! 0) = ''forgotten''
   \<and> map consolidation_state
        (events (fst (review_item (\<lambda>k. 8640000) (sample_store [sample_item 1 0.1 1 0 0 ''active''] [])
                        ''events'' 1 5))) = [''active'']"
proof -
  let ?conn = "sample_store [sample_item 1 0.1 1 0 0 ''forgotten''] []"
  let ?ops = "[Review (\<lambda>k. 8640000) ''events'' 1 5, Sweep (\<lambda>k. 8640000) False,
               Review (\<lambda>k. 8640000) ''lessons'' 1 0]"
  have a: "consolidation_state (events (run_ops ?conn ?ops) ! 0) = ''forgotten''"
    using consolidation_state_one_way [THEN conjunct2, THEN conjunct2, THEN conjunct1,
            rule_format, of ?conn ?ops, THEN conjunct2, THEN conjunct2, rule_format, of 0]
    by (simp add: sample_store_def)
  have b: "map consolidation_state
        (events (fst (review_item (\<lambda>k. 8640000) (sample_store [sample_item 1 0.1 1 0 0 ''active''] [])
                        ''events'' 1 5))) = [''active'']"
    using consolidation_state_one_way [THEN conjunct1, rule_format,
            of "\<lambda>k. 8640000" "sample_store [sample_item 1 0.1 1 0 0 ''active''] []" "''events''" 1 5]
    by (simp add: sample_store_def)
  show ?thesis using a b by blast
qed

subsection \<open>The decay sweep\<close>

lemma candidate_ids:
  assumes "distinct (map item_id rows)" and "r \<in> set rows"
  shows "item_id r \<in> set (map item_id (filter c rows)) \<longleftrightarrow> c r"
proof -
  have "inj_on item_id (set rows)" using assms(1) by (simp add: distinct_map)
  then show ?thesis using assms(2) by (auto simp: inj_on_def)
qed

text \<open>
  C4, as the code has it. The sweep reads and writes the table \<open>events\<close> only: the lessons
  and the review log are never modified. In dry-run mode it changes nothing in the
  store. In apply mode (event ids distinct), when some event is a candidate at the time
  of the query, every event that at the time of the update is not forgotten, has
  importance below 0.3 and retention below 0.1 becomes forgotten, with its other
  columns as they were, and every other event is as it was; when no event is a
  candidate at the time of the query, nothing is written.
\<close>

theorem process_decay_sweep:
  "(\<forall>clk conn. fst (process_decay clk conn True) = conn)
   \<and> (\<forall>clk conn dry. lessons (fst (process_decay clk conn dry)) = lessons conn \<and>
                       review_log (fst (process_decay clk conn dry)) = review_log conn)
   \<and> (\<forall>clk conn. distinct (map item_id (events conn)) \<and>
                   (\<exists>r. r \<in> set (events conn) \<and> decay_candidate (clk 0) r) \<longrightarrow>
        events (fst (process_decay clk conn False))
          = map (\<lambda>r. if decay_candidate (clk 1) r
                      then r\<lparr>consolidation_state := ''forgotten''\<rparr> else r) (events conn))
   \<and> (\<forall>clk conn. \<not> (\<exists>r. r \<in> set (events conn) \<and> decay_candidate (clk 0) r) \<longrightarrow>
        fst (process_decay clk conn False) = conn)"
proof (intro conjI allI impI)
  fix clk :: clock and conn :: database
  show "fst (process_decay clk conn True) = conn" by (rule process_decay_dry)
next
  fix clk :: clock and conn :: database and dry
  show "lessons (fst (process_decay clk conn dry)) = lessons conn" by (rule lessons_process_decay)
  show "review_log (fst (process_decay clk conn dry)) = review_log conn" by (rule review_log_process_decay)
next
  fix clk :: clock and conn :: database
  assume a: "distinct (map item_id (events conn)) \<and>
             (\<exists>r. r \<in> set (events conn) \<and> decay_candidate (clk 0) r)"
  then have ne: "filter (decay_candidate (clk 0)) (events conn) \<noteq> []"
    by (auto simp: filter_empty_conv)
  have "map (\<lambda>r. if item_id r \<in> set (map item_id (filter (decay_candidate (clk 1)) (events conn)))
                  then r\<lparr>consolidation_state := ''forgotten''\<rparr> else r) (events conn)
        = map (\<lambda>r. if decay_candidate (clk 1) r
                    then r\<lparr>consolidation_state := ''forgotten''\<rparr> else r) (events conn)"
    by (rule map_cong [OF refl]) (simp only: candidate_ids [OF conjunct1 [OF a]])
  then show "events (fst (process_decay clk conn False))
          = map (\<lambda>r. if decay_candidate (clk 1) r
                      then r\<lparr>consolidation_state := ''forgotten''\<rparr> else r) (events conn)"
    using ne by (simp add: process_decay_def Let_def)
next
  fix clk :: clock and conn :: database
  assume "\<not> (\<exists>r. r \<in> set (events conn) \<and> decay_candidate (clk 0) r)"
  then have "filter (decay_candidate (clk 0)) (events conn) = []"
    by (auto simp: filter_empty_conv)
  then show "fst (process_decay clk conn False) = conn"
    by (simp add: process_decay_def Let_def)
qed

theorem process_decay_sweep_witness:
  "events (fst (process_decay (\<lambda>k. 8640000)
       (sample_store [sample_item 1 0.1 1 0 0 ''active'', sample_item 2 0.9 1 0 0 ''active''] []) False))
   = [sample_item 1 0.1 1 0 0 ''forgotten'', sample_item 2 0.9 1 0 0 ''active'']
   \<and> fst (process_decay (\<lambda>k. 8640000)
       (sample_store [sample_item 2 0.9 1 0 0 ''active''] []) False)
     = sample_store [sample_item 2 0.9 1 0 0 ''active''] []"
proof -
  let ?clk = "(\<lambda>k. 8640000) :: clock"
  let ?conn = "sample_store [sample_item 1 0.1 1 0 0 ''active'', sample_item 2 0.9 1 0 0 ''active''] []"
  have a: "events (fst (process_decay ?clk ?conn False))
           = [sample_item 1 0.1 1 0 0 ''forgotten'', sample_item 2 0.9 1 0 0 ''active'']"
    using process_decay_sweep [THEN conjunct2, THEN conjunct2, THEN conjunct1, rule_format, of ?conn ?clk]
      sample_decays [of 1 0]
    by (auto simp add: sample_store_def sample_important sample_forget)
  have b: "fst (process_decay ?clk (sample_store [sample_item 2 0.9 1 0 0 ''active''] []) False)
           = sample_store [sample_item 2 0.9 1 0 0 ''active''] []"
    using process_decay_sweep [THEN conjunct2, THEN conjunct2, THEN conjunct2, rule_format,
            of "sample_store [sample_item 2 0.9 1 0 0 ''active''] []" ?clk]
    by (simp add: sample_store_def sample_important)
  show ?thesis using a b by blast
qed

text \<open>
  A lesson that is active, of importance 0.1 and of retention below 0.1 is left as it is
  by a sweep in apply mode.
\<close>

theorem process_decay_lessons_counterexample:
  "importance (sample_item 7 0.1 1 0 0 ''active'') < 0.3
   \<and> consolidation_state (sample_item 7 0.1 1 0 0 ''active'') = ''active''
   \<and> calculate_retention ((8640000 - last_or_created (sample_item 7 0.1 1 0 0 ''active'')) / 3600)
        (memory_strength (sample_item 7 0.1 1 0 0 ''active'')) = Inr (exp (- 100))
   \<and> exp (- 100 :: real) < 0.1
   \<and> process_decay (\<lambda>k. 8640000) (sample_store [] [sample_item 7 0.1 1 0 0 ''active'']) False
     = (sample_store [] [sample_item 7 0.1 1 0 0 ''active''], [])"
proof -
  have "calculate_retention 2400 1 = Inr (exp (- 100))"
    using calculate_retention_value [of 2400 1] by simp
  then show ?thesis
    using exp_minus_100 by (simp add: process_decay_def sample_store_def)
qed

subsection \<open>The strength stays in its range\<close>

lemma last_or_created_set_review [simp]: "last_or_created (set_review a b c d r) = c"
  by (simp add: set_review_def last_or_created_def)

lemma in_range_set_review [simp]:
  "in_range (set_review a b c d r) \<longleftrightarrow> 0.5 \<le> a \<and> a \<le> 10"
  by (simp add: in_range_def)

lemma review_item_keeps_range:
  assumes inv: "\<And>r. r \<in> set (table_rows conn tbl') \<Longrightarrow> item_id r = sid' \<Longrightarrow>
                  in_range r \<and> last_or_created r \<le> T"
    and clk: "T \<le> clk 0" "clk 0 \<le> clk 1"
  shows "list_all2 (\<lambda>r r'. item_id r' = item_id r \<and>
                     (item_id r = sid' \<and> in_range r \<and> last_or_created r \<le> T \<longrightarrow>
                        in_range r' \<and> last_or_created r' \<le> clk 0))
           (table_rows conn tbl') (table_rows (fst (review_item clk conn tbl sid q)) tbl')"
proof (rule review_item_rows)
  fix r :: item
  show "item_id r = item_id r \<and>
        (item_id r = sid' \<and> in_range r \<and> last_or_created r \<le> T \<longrightarrow>
           in_range r \<and> last_or_created r \<le> clk 0)"
    using clk(1) by simp
next
  fix row R iv r
  assume f: "fetch_item conn tbl sid = Some row"
    and R: "calculate_retention ((clk 1 - last_or_created row) / 3600) (memory_strength row) = Inr R"
    and same: "(tbl = ''events'') = (tbl' = ''events'')"
    and r: "r \<in> set (table_rows conn tbl')" "item_id r = sid"
  let ?new = "set_review (fst (review_update (memory_strength row) (repetition_count row) R q))
                       (snd (review_update (memory_strength row) (repetition_count row) R q))
                       (clk 0) (clk 2 + iv * 3600) r"
  have t: "table_rows conn tbl = table_rows conn tbl'"
    using same by (simp add: table_rows_def)
  have row: "row \<in> set (table_rows conn tbl')" "item_id row = sid"
    using fetch_item_in_rows [OF f] t by simp_all
  have "in_range ?new" if "item_id r = sid'"
  proof -
    have g: "in_range row \<and> last_or_created row \<le> T"
      using inv [OF row(1)] row(2) r(2) that by simp
    then have h: "0 \<le> (clk 1 - last_or_created row) / 3600"
      using clk by simp
    have s: "0 < memory_strength row" "0.5 \<le> memory_strength row" "memory_strength row \<le> 10"
      using g by (simp_all add: in_range_def)
    have "R \<le> 1" using retention_le_one [OF h s(1) R] by simp
    then show ?thesis
      using review_update_in_range [OF s(2) s(3), of R "repetition_count row" q] by simp
  qed
  then show "item_id ?new = item_id r \<and>
        (item_id r = sid' \<and> in_range r \<and> last_or_created r \<le> T \<longrightarrow>
           in_range ?new \<and> last_or_created ?new \<le> clk 0)"
    by simp
qed

lemma process_decay_keeps_range:
  "list_all2 (\<lambda>r r'. item_id r' = item_id r \<and>
                     (item_id r = sid' \<and> in_range r \<and> last_or_created r \<le> T \<longrightarrow>
                        in_range r' \<and> last_or_created r' \<le> T))
     (table_rows conn tbl') (table_rows (fst (process_decay clk conn dry)) tbl')"
  by (rule process_decay_table_rows) (simp_all add: in_range_def last_or_created_def split: option.split)

lemma all2_in_set:
  assumes "list_all2 P xs ys" and "y \<in> set ys"
  shows "\<exists>x \<in> set xs. P x y"
  using assms by (induction xs ys rule: list_all2_induct) auto

lemma run_ops_keeps_range:
  assumes "\<forall>r \<in> set (table_rows conn tbl'). item_id r = sid' \<longrightarrow> in_range r \<and> last_or_created r \<le> T"
    and "clocks_ok T ops"
  shows "list_all2 (\<lambda>r r'. item_id r' = item_id r) (table_rows conn tbl') (table_rows (run_ops conn ops) tbl')
         \<and> (\<forall>r \<in> set (table_rows (run_ops conn ops) tbl'). item_id r = sid' \<longrightarrow> in_range r)"
  using assms
proof (induction ops arbitrary: conn T)
  case Nil
  then show ?case by (simp add: run_ops_def list_all2_refl)
next
  case (Cons op ops)
  obtain T' where step: "list_all2 (\<lambda>r r'. item_id r' = item_id r \<and>
                     (item_id r = sid' \<and> in_range r \<and> last_or_created r \<le> T \<longrightarrow>
                        in_range r' \<and> last_or_created r' \<le> T'))
           (table_rows conn tbl') (table_rows (run_op conn op) tbl')"
    and rest: "clocks_ok T' ops"
  proof (cases op)
    case (Review clk tbl sid q)
    have c: "T \<le> clk 0" "clk 0 \<le> clk 1" "clocks_ok (clk 0) ops"
      using Cons.prems(2) Review by simp_all
    have "list_all2 (\<lambda>r r'. item_id r' = item_id r \<and>
                     (item_id r = sid' \<and> in_range r \<and> last_or_created r \<le> T \<longrightarrow>
                        in_range r' \<and> last_or_created r' \<le> clk 0))
           (table_rows conn tbl') (table_rows (fst (review_item clk conn tbl sid q)) tbl')"
      using Cons.prems(1) c(1) c(2) by (intro review_item_keeps_range) simp_all
    then show ?thesis using that [of "clk 0"] c(3) Review by simp
  next
    case (Sweep clk dry)
    have "clocks_ok T ops" using Cons.prems(2) Sweep by simp
    then show ?thesis
      using that [of T] process_decay_keeps_range [of sid' T conn tbl' clk dry] Sweep by simp
  qed
  have inv': "\<forall>r \<in> set (table_rows (run_op conn op) tbl'). item_id r = sid' \<longrightarrow>
                in_range r \<and> last_or_created r \<le> T'"
  proof (intro ballI impI)
    fix r'
    assume r': "r' \<in> set (table_rows (run_op conn op) tbl')" "item_id r' = sid'"
    obtain r where r: "r \<in> set (table_rows conn tbl')" "item_id r' = item_id r"
      "item_id r = sid' \<and> in_range r \<and> last_or_created r \<le> T \<longrightarrow>
         in_range r' \<and> last_or_created r' \<le> T'"
      using all2_in_set [OF step r'(1)] by blast
    show "in_range r' \<and> last_or_created r' \<le> T'"
      using r r'(2) Cons.prems(1) by auto
  qed
  have ih: "list_all2 (\<lambda>r r'. item_id r' = item_id r) (table_rows (run_op conn op) tbl')
              (table_rows (run_ops (run_op conn op) ops) tbl')
         \<and> (\<forall>r \<in> set (table_rows (run_ops (run_op conn op) ops) tbl'). item_id r = sid' \<longrightarrow> in_range r)"
    using inv' rest by (rule Cons.IH)
  have ids: "list_all2 (\<lambda>r r'. item_id r' = item_id r) (table_rows conn tbl') (table_rows (run_op conn op) tbl')"
    using step by (rule list_all2_mono) simp
  have "list_all2 (\<lambda>r r'. item_id r' = item_id r) (table_rows conn tbl')
          (table_rows (run_ops (run_op conn op) ops) tbl')"
    using ids conjunct1 [OF ih] by (rule list_all2_trans [rotated]) simp
  then show ?case using ih by (simp add: run_ops_def)
qed


text \<open>
  Whatever the retention and the quality, a review writes no strength above 10 when the
  strength read is at most 10.
\<close>

lemma review_update_upper:
  "s \<le> 10 \<Longrightarrow> fst (review_update s r R q) \<le> 10"
  by (simp add: review_update_def Let_def)

text \<open>
  Take an item (the rows of one table with one id) whose strength starts in
  \<open>[0.5, 10]\<close> and whose last-review (or creation) time is not after \<open>T\<close>. After any
  sequence of reviews, of any quality and of any item, and of sweeps, made with a clock
  that does not run backwards from \<open>T\<close>, the item is still in its place and its strength
  is in \<open>[0.5, 10]\<close>.
\<close>

lemma strength_stays_in_range:
  assumes start: "\<forall>r \<in> set (table_rows conn tbl). item_id r = sid \<longrightarrow>
                    in_range r \<and> last_or_created r \<le> T"
    and clock: "clocks_ok T ops"
  shows "length (table_rows (run_ops conn ops) tbl) = length (table_rows conn tbl) \<and>
         (\<forall>i. i < length (table_rows conn tbl) \<and> item_id (table_rows conn tbl ! i) = sid \<longrightarrow>
              item_id (table_rows (run_ops conn ops) tbl ! i) = sid \<and>
              0.5 \<le> memory_strength (table_rows (run_ops conn ops) tbl ! i) \<and>
              memory_strength (table_rows (run_ops conn ops) tbl ! i) \<le> 10.0)"
proof -
  have ids: "list_all2 (\<lambda>r r'. item_id r' = item_id r) (table_rows conn tbl)
               (table_rows (run_ops conn ops) tbl)"
    and rng: "\<forall>r \<in> set (table_rows (run_ops conn ops) tbl). item_id r = sid \<longrightarrow> in_range r"
    using run_ops_keeps_range [OF start clock] by simp_all
  have len: "length (table_rows (run_ops conn ops) tbl) = length (table_rows conn tbl)"
    using ids by (simp add: list_all2_lengthD)
  have "item_id (table_rows (run_ops conn ops) tbl ! i) = sid \<and>
        0.5 \<le> memory_strength (table_rows (run_ops conn ops) tbl ! i) \<and>
        memory_strength (table_rows (run_ops conn ops) tbl ! i) \<le> 10.0"
    if i: "i < length (table_rows conn tbl)" "item_id (table_rows conn tbl ! i) = sid" for i
  proof -
    have a: "item_id (table_rows (run_ops conn ops) tbl ! i) = sid"
      using list_all2_nthD [OF ids i(1)] i(2) by simp
    have "table_rows (run_ops conn ops) tbl ! i \<in> set (table_rows (run_ops conn ops) tbl)"
      using i(1) len by simp
    then have "in_range (table_rows (run_ops conn ops) tbl ! i)"
      using rng a by blast
    then show ?thesis using a by (simp add: in_range_def)
  qed
  then show ?thesis using len by blast
qed

text \<open>
  C5. The strength of an item is to stay in \<open>[0.5, 10]\<close> after any sequence of reviews.
  \<open>review_item\<close> clamps the strength of a successful recall from above only and never
  compares the stored time with the clock: for an event of strength 0.5 dated twelve
  hours after the clock reading, a review of quality 3 computes the retention \<open>exp 1\<close>
  and writes a strength below 0.5.
\<close>

theorem strength_below_range_after_review:
  "in_range (sample_item 1 0.5 0.5 0 129600 ''active'')
   \<and> map memory_strength
        (events (fst (review_item (\<lambda>k. 86400) (sample_store [sample_item 1 0.5 0.5 0 129600 ''active''] [])
                        ''events'' 1 3)))
     = [0.5 * 1.1 * (1 + (1 - exp 1) * 0.5)]
   \<and> 0.5 * 1.1 * (1 + (1 - exp 1) * 0.5) < (0.5 :: real)"
proof -
  have R: "calculate_retention (- 12) (1 / 2) = Inr (exp 1)"
    by (simp add: calculate_retention_def math_exp_def float_exp_def exp_overflow_bound_def
        exp_underflow_bound_def)
  have e: "2 \<le> exp (1 :: real)"
    using exp_ge_add_one_self [of "1 :: real"] by simp
  have lin: "0.5 * 1.1 * (1 + (1 - exp 1) * 0.5) = 33 / 40 - 11 / 40 * exp (1 :: real)"
    by (simp add: field_simps)
  have small: "0.5 * 1.1 * (1 + (1 - exp 1) * 0.5) < (0.5 :: real)"
    unfolding lin using e by linarith
  have le10: "0.5 * 1.1 * (1 + (1 - exp 1) * 0.5) \<le> (10 :: real)"
    unfolding lin using e by linarith
  have u: "review_update (1 / 2) 0 (exp 1) 3 = (0.5 * 1.1 * (1 + (1 - exp 1) * 0.5), 1)"
    using le10 by (simp add: review_update_def min_def)
  have i: "get_next_interval 1 3 = Inr (24 * 0.8)"
    by (simp add: get_next_interval_def py_index_def INTERVALS_def)
  have w: "map memory_strength
        (events (fst (review_item (\<lambda>k. 86400) (sample_store [sample_item 1 0.5 0.5 0 129600 ''active''] [])
                        ''events'' 1 3)))
     = [0.5 * 1.1 * (1 + (1 - exp 1) * 0.5)]"
    by (simp add: review_item_def fetch_item_def sample_store_def last_or_created_def
        R u i write_review_def update_where_id_def sample_item_def set_review_def Let_def)
  have r: "in_range (sample_item 1 0.5 0.5 0 129600 ''active'')"
    by (simp add: in_range_def)
  show ?thesis using r w small by blast
qed

subsection \<open>Requests that are rejected\<close>

lemma review_item_not_found:
  "fetch_item conn tbl sid = None \<Longrightarrow> review_item clk conn tbl sid q = (conn, NotFound)"
  by (simp add: review_item_def)

lemma main_quality_rejected:
  "q < 0 \<or> 5 < q \<Longrightarrow> arg_quality a = q \<Longrightarrow> main clk conn a = (conn, UsageError)"
  by (auto simp add: main_def)

lemma main_format_rejected:
  assumes "arg_quality a \<in> set [0, 1, 2, 3, 4, 5]" and "\<not> arg_due a"
    and "arg_review a = Some s" and "s \<noteq> []" and "length (split_colon s) \<noteq> 2"
  shows "main clk conn a = (conn, BadFormat)"
  using assms by (simp add: main_def)

lemma main_id_rejected:
  assumes "arg_quality a \<in> set [0, 1, 2, 3, 4, 5]" and "\<not> arg_due a"
    and "arg_review a = Some s" and "s \<noteq> []" and "split_colon s = [t, i]"
    and "py_int i = Inl e"
  shows "main clk conn a = (conn, Raised e)"
  using assms by (simp add: main_def)

lemma split_foo: "split_colon ''foo:1'' = [''foo'', ''1'']"
  by simp

lemma py_int_one: "py_int ''1'' = Inr 1"
  by (simp add: py_int_def strip_def is_space_def is_digit_def digits_value_def digit_val_def)

text \<open>
  C7. A reference to a table that is neither \<open>events\<close> nor \<open>lessons\<close> is not rejected:
  \<open>--review foo:1 --quality 4\<close> updates the lesson with id 1 and appends a log row for
  the table \<open>foo\<close>.
\<close>

theorem main_unknown_table_writes:
  "main (\<lambda>k. 86400) (sample_store [] [sample_item 1 0.5 2 2 86400 ''active''])
        \<lparr>arg_due = False, arg_review = Some ''foo:1'', arg_quality = 4,
         arg_stats = False, arg_decay = False, arg_apply = False\<rparr>
   = (\<lparr>events = [],
       lessons = [set_review (12 / 5) 3 86400 (86400 + 168 * 3600)
                    (sample_item 1 0.5 2 2 86400 ''active'')],
       review_log = [\<lparr>log_source_table = ''foo'', log_source_id = 1, retention_before = 1,
                      log_quality = 4, time_since_last_review_hours = 0\<rparr>]\<rparr>,
      Recorded)"
proof -
  have R: "calculate_retention 0 2 = Inr 1"
    by (simp add: calculate_retention_def math_exp_def float_exp_def exp_overflow_bound_def
        exp_underflow_bound_def)
  have u: "review_update 2 2 1 4 = (12 / 5, 3)"
    by (simp add: review_update_def)
  have i: "get_next_interval 3 4 = Inr 168"
    by (simp add: get_next_interval_def py_index_def INTERVALS_def)
  have l: "py_index quality_labels 4 = Inr ''Good''"
    by (simp add: py_index_def quality_labels_def)
  have r: "review_item (\<lambda>k. 86400) (sample_store [] [sample_item 1 0.5 2 2 86400 ''active'']) ''foo'' 1 4
     = (\<lparr>events = [],
       lessons = [set_review (12 / 5) 3 86400 (86400 + 168 * 3600)
                    (sample_item 1 0.5 2 2 86400 ''active'')],
       review_log = [\<lparr>log_source_table = ''foo'', log_source_id = 1, retention_before = 1,
                      log_quality = 4, time_since_last_review_hours = 0\<rparr>]\<rparr>,
      Recorded)"
    by (simp add: review_item_def fetch_item_def sample_store_def last_or_created_def
        R u i l write_review_def update_where_id_def sample_item_def Let_def)
  show ?thesis
    using r by (simp add: main_def split_foo py_int_one del: split_colon.simps)
qed

end
